theory Spec2Isabelle
  imports Main "HOL-Library.Sublist" "HOL-Library.AList_Mapping"
begin

section \<open>Data model (src/types.ts)\<close>

datatype MessageType = TEXT | SUGGESTION | ARCHITECTURE | CODE | REFACTOR_ANALYSIS | APP_PREVIEW_PROMPT

datatype MessageAuthor = user | ai

text \<open>A code map \<^verbatim>\<open>{ [filename: string]: string }\<close> is a finite dictionary keyed by file name.\<close>

type_synonym CodeMap = "(string, string) mapping"

text \<open>The field \<^verbatim>\<open>method\<close> of \<^verbatim>\<open>ApiEndpoint\<close> is written \<open>httpMethod\<close>.\<close>

record ApiEndpoint =
  httpMethod :: string
  path :: string
  description :: string

record Microservice =
  id :: string
  name :: string
  description :: string
  apiEndpoints :: "ApiEndpoint list"

datatype DataStoreType = PostgreSQL | MongoDB | Redis | S3_Bucket | Other

record DataStore =
  id :: string
  name :: string
  type :: DataStoreType
  schemaDescription :: string

record AppArchitecture =
  name :: string
  description :: string
  microservices :: "Microservice list"
  dataStores :: "DataStore list"

text \<open>
  \<^verbatim>\<open>MessageBody\<close> is \<^verbatim>\<open>Omit<ChatMessage, 'timestamp'>\<close>, the argument type of
  \<^verbatim>\<open>addMessage\<close>; \<^verbatim>\<open>ChatMessage\<close> extends it with the time stamp. An optional field
  that is absent in an object literal is \<open>None\<close>.
\<close>

record MessageBody =
  author :: MessageAuthor
  type :: MessageType
  content :: string
  suggestionContext :: "string option"
  architecture :: "AppArchitecture option"
  code :: "CodeMap option"
  codeLanguage :: "string option"

record ChatMessage = MessageBody +
  timestamp :: string

section \<open>The generation service (imported from services/geminiService)\<close>

text \<open>
  A value thrown by a call (or the reason of a rejected promise) is either an instance of
  \<^verbatim>\<open>Error\<close>, which has a \<^verbatim>\<open>message\<close>, or anything else.
\<close>

datatype thrown = Error string | NonError

text \<open>The result \<^verbatim>\<open>{ analysis, refactoredCode }\<close> of \<^verbatim>\<open>analyzeAndRefactorCode\<close>.\<close>

record RefactorResult =
  analysis :: string
  refactoredCode :: CodeMap

text \<open>
  The service itself is outside the component; it is a parameter of every handler. Each
  asynchronous operation either resolves (\<open>Inr\<close>) or rejects (\<open>Inl\<close>); the synchronous
  \<^verbatim>\<open>initializeAi\<close> returns normally (\<open>None\<close>) or throws.
\<close>

record GeminiService =
  initializeAi :: "string \<Rightarrow> thrown option"
  generateInitialArchitecture :: "string \<Rightarrow> thrown + AppArchitecture"
  generateBackendCode :: "AppArchitecture \<Rightarrow> thrown + CodeMap"
  analyzeAndRefactorCode :: "CodeMap \<Rightarrow> thrown + RefactorResult"
  generateFrontendPreview :: "Microservice \<Rightarrow> thrown + string"
  generateAppPreview :: "AppArchitecture \<Rightarrow> thrown + string"

text \<open>A call made to the service, as recorded in the trace of calls.\<close>

datatype request =
    InitializeAi string
  | GenerateInitialArchitecture string
  | GenerateBackendCode AppArchitecture
  | AnalyzeAndRefactorCode CodeMap
  | GenerateFrontendPreview Microservice
  | GenerateAppPreview AppArchitecture

section \<open>Component state (src/App.tsx, lines 11-21)\<close>

record PreviewData =
  name :: string
  htmlContent :: "string option"
  isLoading :: bool

text \<open>
  The five \<^verbatim>\<open>useState\<close> cells of \<^verbatim>\<open>App\<close>, the browser's \<^verbatim>\<open>sessionStorage\<close>, and two
  observation traces that the component cannot read: the calls made to the generation
  service and the texts shown by \<^verbatim>\<open>alert\<close>. \<^verbatim>\<open>console.error\<close> is not modelled, and
  \<^verbatim>\<open>sessionStorage.setItem\<close> is taken not to throw.

  React queues the state updates of a handler and applies them in order before the next
  render; here each update is applied at once, which gives the same state whenever the
  handler waits or returns. A handler reads \<^verbatim>\<open>apiKey\<close> from the render that created it;
  \<^verbatim>\<open>useCallback\<close> recreates the two handlers that read it whenever it changes, so they see
  its current value.
\<close>

record App =
  chatHistory :: "ChatMessage list"
  isLoading :: bool
  apiKey :: "string option"
  isPreviewModalOpen :: bool
  previewData :: PreviewData
  sessionStorage :: "string \<rightharpoonup> string"
  calls :: "request list"
  alerts :: "string list"

text \<open>
  The wall clock read by \<^verbatim>\<open>new Date().toLocaleTimeString(...)\<close> is a parameter: \<open>clk n\<close> is
  the display time read when the entry at position \<open>n\<close> of the history is appended.
\<close>

type_synonym clock = "nat \<Rightarrow> string"

text \<open>JavaScript truthiness of a \<^verbatim>\<open>string | null\<close>: \<^verbatim>\<open>null\<close> and the empty string are falsy.\<close>

definition truthy :: "string option \<Rightarrow> bool" where
  \<open>truthy k = (case k of None \<Rightarrow> False | Some v \<Rightarrow> v \<noteq> [])\<close>

text \<open>\<^verbatim>\<open>error instanceof Error ? error.message : "An unknown error occurred."\<close>\<close>

definition errorMessage :: "thrown \<Rightarrow> string" where
  \<open>errorMessage error = (case error of Error m \<Rightarrow> m | NonError \<Rightarrow> ''An unknown error occurred.'')\<close>

section \<open>Seed data (src/constants.ts, lines 4-11)\<close>

text \<open>The time stamp of the seed entry is read once, when the module is loaded.\<close>

definition INITIAL_CHAT_MESSAGES :: "string \<Rightarrow> ChatMessage list" where
  \<open>INITIAL_CHAT_MESSAGES t0 =
    [\<lparr>author = ai, type = TEXT,
      content = ''Welcome! I'm your AI development partner. Describe the app you want to build, and I'll generate the architecture, code, and UI previews for you.'',
      suggestionContext = None, architecture = None, code = None, codeLanguage = None,
      timestamp = t0\<rparr>]\<close>

definition initialApp :: "string \<Rightarrow> (string \<rightharpoonup> string) \<Rightarrow> App" where
  \<open>initialApp t0 store =
    \<lparr>chatHistory = INITIAL_CHAT_MESSAGES t0,
     isLoading = False,
     apiKey = None,
     isPreviewModalOpen = False,
     previewData = \<lparr>PreviewData.name = '''', htmlContent = None, PreviewData.isLoading = False\<rparr>,
     sessionStorage = store,
     calls = [],
     alerts = []\<rparr>\<close>

section \<open>Handlers, run to completion (src/App.tsx)\<close>

text \<open>Recording a call to the generation service.\<close>

definition call :: "App \<Rightarrow> request \<Rightarrow> App" where
  \<open>call s r = s\<lparr>calls := calls s @ [r]\<rparr>\<close>

text \<open>\<^verbatim>\<open>handleApiKeySubmit\<close>, lines 31-40.\<close>

definition handleApiKeySubmit :: "GeminiService \<Rightarrow> App \<Rightarrow> string \<Rightarrow> App" where
  \<open>handleApiKeySubmit c s key =
    (let s1 = call s (InitializeAi key) in
     case initializeAi c key of
       None \<Rightarrow>
         s1\<lparr>sessionStorage := (sessionStorage s1)(''gemini-api-key'' \<mapsto> key), apiKey := Some key\<rparr>
     | Some error \<Rightarrow>
         s1\<lparr>alerts := alerts s1 @
           [''Failed to initialize with that API Key. Please check the key and try again.'']\<rparr>)\<close>

text \<open>The mount effect, lines 24-29.\<close>

definition mount :: "GeminiService \<Rightarrow> App \<Rightarrow> App" where
  \<open>mount c s =
    (case sessionStorage s ''gemini-api-key'' of
       None \<Rightarrow> s
     | Some storedKey \<Rightarrow>
         if truthy (Some storedKey) then handleApiKeySubmit c s storedKey else s)\<close>

text \<open>\<^verbatim>\<open>addMessage\<close>, lines 43-45: \<^verbatim>\<open>prev => [...prev, { ...message, timestamp }]\<close>.\<close>

definition stamp :: "MessageBody \<Rightarrow> string \<Rightarrow> ChatMessage" where
  \<open>stamp message t =
    \<lparr>author = author message, type = MessageBody.type message, content = content message,
     suggestionContext = suggestionContext message, architecture = architecture message,
     code = code message, codeLanguage = codeLanguage message, timestamp = t\<rparr>\<close>

definition addMessage :: "clock \<Rightarrow> App \<Rightarrow> MessageBody \<Rightarrow> App" where
  \<open>addMessage clk s message =
    s\<lparr>chatHistory := chatHistory s @ [stamp message (clk (length (chatHistory s)))]\<rparr>\<close>

text \<open>
  The object literals passed to \<^verbatim>\<open>addMessage\<close>, named after the line of \<^verbatim>\<open>App.tsx\<close> where
  each is written.
\<close>

definition message49 :: MessageBody where
  \<open>message49 =
    \<lparr>author = ai, type = TEXT, content = ''Please set your API key before we begin.'',
     suggestionContext = None, architecture = None, code = None, codeLanguage = None\<rparr>\<close>

definition message52 :: "string \<Rightarrow> MessageBody" where
  \<open>message52 message =
    \<lparr>author = user, type = TEXT, content = message,
     suggestionContext = None, architecture = None, code = None, codeLanguage = None\<rparr>\<close>

definition message58 :: "AppArchitecture \<Rightarrow> MessageBody" where
  \<open>message58 newArch =
    \<lparr>author = ai, type = TEXT,
     content = ''Excellent. I've analyzed your vision for "'' @ AppArchitecture.name newArch
       @ ''" and generated the initial architecture. I'll also start scaffolding the backend server code for you.'',
     suggestionContext = None, architecture = None, code = None, codeLanguage = None\<rparr>\<close>

definition message64 :: "AppArchitecture \<Rightarrow> MessageBody" where
  \<open>message64 newArch =
    \<lparr>author = ai, type = ARCHITECTURE,
     content = ''Here is the interactive architecture diagram:'',
     suggestionContext = None, architecture = Some newArch, code = None, codeLanguage = None\<rparr>\<close>

definition message72 :: "CodeMap \<Rightarrow> MessageBody" where
  \<open>message72 backendCode =
    \<lparr>author = ai, type = CODE,
     content = ''I've generated the complete Node.js backend for your application. You can inspect the files below.'',
     suggestionContext = None, architecture = None, code = Some backendCode,
     codeLanguage = Some ''javascript''\<rparr>\<close>

definition message80 :: "AppArchitecture \<Rightarrow> MessageBody" where
  \<open>message80 newArch =
    \<lparr>author = ai, type = APP_PREVIEW_PROMPT,
     content = ''Now that the core components are ready, I can generate a holistic UI preview for the entire application.'',
     suggestionContext = None, architecture = Some newArch, code = None, codeLanguage = None\<rparr>\<close>

definition message91 :: "thrown \<Rightarrow> MessageBody" where
  \<open>message91 error =
    \<lparr>author = ai, type = TEXT,
     content = ''I hit a snag. '' @ errorMessage error @ ''. Could you try describing your app again?'',
     suggestionContext = None, architecture = None, code = None, codeLanguage = None\<rparr>\<close>

definition message103 :: MessageBody where
  \<open>message103 =
    \<lparr>author = ai, type = TEXT,
     content = ''Understood. I'm now analyzing the generated code for potential improvements, like adding error handling and validation...'',
     suggestionContext = None, architecture = None, code = None, codeLanguage = None\<rparr>\<close>

definition message114 :: "RefactorResult \<Rightarrow> MessageBody" where
  \<open>message114 result =
    \<lparr>author = ai, type = REFACTOR_ANALYSIS, content = analysis result,
     suggestionContext = None, architecture = None, code = Some (refactoredCode result),
     codeLanguage = Some ''javascript''\<rparr>\<close>

definition message125 :: "thrown \<Rightarrow> MessageBody" where
  \<open>message125 error =
    \<lparr>author = ai, type = TEXT,
     content = ''I encountered an issue while trying to refactor the code. '' @ errorMessage error @ ''.'',
     suggestionContext = None, architecture = None, code = None, codeLanguage = None\<rparr>\<close>

text \<open>
  \<^verbatim>\<open>handleSendMessage\<close>, lines 47-99. The \<^verbatim>\<open>try\<close> block yields the state it reached and
  the value thrown, if any; \<^verbatim>\<open>catch\<close> and \<^verbatim>\<open>finally\<close> follow.
\<close>

definition handleSendMessage_try ::
  "GeminiService \<Rightarrow> clock \<Rightarrow> App \<Rightarrow> string \<Rightarrow> App \<times> thrown option" where
  \<open>handleSendMessage_try c clk s message =
    (let s1 = call s (GenerateInitialArchitecture message) in
     case generateInitialArchitecture c message of
       Inl error \<Rightarrow> (s1, Some error)
     | Inr newArch \<Rightarrow>
        (let s2 = addMessage clk s1 (message58 newArch);
             s3 = addMessage clk s2 (message64 newArch);
             s4 = call s3 (GenerateBackendCode newArch)
         in case generateBackendCode c newArch of
              Inl error \<Rightarrow> (s4, Some error)
            | Inr backendCode \<Rightarrow>
               (let s5 = addMessage clk s4 (message72 backendCode);
                    s6 = addMessage clk s5 (message80 newArch)
                in (s6, None))))\<close>

definition handleSendMessage :: "GeminiService \<Rightarrow> clock \<Rightarrow> App \<Rightarrow> string \<Rightarrow> App" where
  \<open>handleSendMessage c clk s message =
    (if \<not> truthy (apiKey s) then addMessage clk s message49
     else
       let s1 = addMessage clk s (message52 message);
           s2 = s1\<lparr>App.isLoading := True\<rparr>;
           (s3, failure) = handleSendMessage_try c clk s2 message;
           s4 = (case failure of None \<Rightarrow> s3 | Some error \<Rightarrow> addMessage clk s3 (message91 error))
       in s4\<lparr>App.isLoading := False\<rparr>)\<close>

text \<open>\<^verbatim>\<open>handleRefactorRequest\<close>, lines 101-133.\<close>

definition handleRefactorRequest :: "GeminiService \<Rightarrow> clock \<Rightarrow> App \<Rightarrow> CodeMap \<Rightarrow> App" where
  \<open>handleRefactorRequest c clk s codeToRefactor =
    (if \<not> truthy (apiKey s) then s
     else
       let s1 = addMessage clk s message103;
           s2 = s1\<lparr>App.isLoading := True\<rparr>;
           s3 = call s2 (AnalyzeAndRefactorCode codeToRefactor);
           s4 = (case analyzeAndRefactorCode c codeToRefactor of
                   Inr result \<Rightarrow> addMessage clk s3 (message114 result)
                 | Inl error \<Rightarrow> addMessage clk s3 (message125 error))
       in s4\<lparr>App.isLoading := False\<rparr>)\<close>

text \<open>\<^verbatim>\<open>handleGeneratePreviewRequest\<close>, lines 135-147. It does not read \<^verbatim>\<open>apiKey\<close>.\<close>

definition errorHtml144 :: "thrown \<Rightarrow> string" where
  \<open>errorHtml144 error =
    ''<div class="p-8 text-center text-red-400"><h2 class="text-xl font-bold mb-2">Preview Generation Failed</h2><p>''
      @ errorMessage error @ ''</p></div>''\<close>

definition handleGeneratePreviewRequest :: "GeminiService \<Rightarrow> App \<Rightarrow> Microservice \<Rightarrow> App" where
  \<open>handleGeneratePreviewRequest c s service =
    (let s1 = s\<lparr>previewData :=
                 \<lparr>PreviewData.name = Microservice.name service, htmlContent = None,
                  PreviewData.isLoading = True\<rparr>\<rparr>;
         s2 = s1\<lparr>isPreviewModalOpen := True\<rparr>;
         s3 = call s2 (GenerateFrontendPreview service)
     in case generateFrontendPreview c service of
          Inr previewHtml \<Rightarrow>
            s3\<lparr>previewData :=
                 \<lparr>PreviewData.name = Microservice.name service, htmlContent = Some previewHtml,
                  PreviewData.isLoading = False\<rparr>\<rparr>
        | Inl error \<Rightarrow>
            s3\<lparr>previewData :=
                 \<lparr>PreviewData.name = Microservice.name service,
                  htmlContent = Some (errorHtml144 error), PreviewData.isLoading = False\<rparr>\<rparr>)\<close>

text \<open>
  \<^verbatim>\<open>handleGenerateAppPreviewRequest\<close>, lines 149-161; its parameter \<^verbatim>\<open>architecture\<close> is
  written \<open>arch\<close>. It does not read \<^verbatim>\<open>apiKey\<close>.
\<close>

definition errorHtml158 :: "thrown \<Rightarrow> string" where
  \<open>errorHtml158 error =
    ''<div class="p-8 text-center text-red-400"><h2 class="text-xl font-bold mb-2">App Preview Generation Failed</h2><p>''
      @ errorMessage error @ ''</p></div>''\<close>

definition handleGenerateAppPreviewRequest :: "GeminiService \<Rightarrow> App \<Rightarrow> AppArchitecture \<Rightarrow> App" where
  \<open>handleGenerateAppPreviewRequest c s arch =
    (let s1 = s\<lparr>previewData :=
                 \<lparr>PreviewData.name = AppArchitecture.name arch @ '' (App Preview)'',
                  htmlContent = None, PreviewData.isLoading = True\<rparr>\<rparr>;
         s2 = s1\<lparr>isPreviewModalOpen := True\<rparr>;
         s3 = call s2 (GenerateAppPreview arch)
     in case generateAppPreview c arch of
          Inr previewHtml \<Rightarrow>
            s3\<lparr>previewData :=
                 \<lparr>PreviewData.name = AppArchitecture.name arch @ '' (App Preview)'',
                  htmlContent = Some previewHtml, PreviewData.isLoading = False\<rparr>\<rparr>
        | Inl error \<Rightarrow>
            s3\<lparr>previewData :=
                 \<lparr>PreviewData.name = AppArchitecture.name arch @ '' (App Preview)'',
                  htmlContent = Some (errorHtml158 error), PreviewData.isLoading = False\<rparr>\<rparr>)\<close>

section \<open>Handlers, one piece at a time\<close>

text \<open>
  JavaScript runs a handler without interruption up to its next \<^verbatim>\<open>await\<close>; other handlers
  may run before the awaited promise settles. Each \<^verbatim>\<open>async\<close> handler is therefore also
  given in pieces: the piece run by the call, which returns the request it then waits for
  (if any), and the piece run when that request settles. State is read and written as in
  the handler: \<^verbatim>\<open>addMessage\<close> appends to the then-current history and every other setter
  writes the given value.
\<close>

definition handleSendMessage_start :: "clock \<Rightarrow> App \<Rightarrow> string \<Rightarrow> App \<times> request option" where
  \<open>handleSendMessage_start clk s message =
    (if \<not> truthy (apiKey s) then (addMessage clk s message49, None)
     else
       let s1 = addMessage clk s (message52 message);
           s2 = s1\<lparr>App.isLoading := True\<rparr>
       in (call s2 (GenerateInitialArchitecture message),
           Some (GenerateInitialArchitecture message)))\<close>

definition handleSendMessage_architecture ::
  "clock \<Rightarrow> App \<Rightarrow> thrown + AppArchitecture \<Rightarrow> App \<times> request option" where
  \<open>handleSendMessage_architecture clk s settled =
    (case settled of
       Inl error \<Rightarrow> ((addMessage clk s (message91 error))\<lparr>App.isLoading := False\<rparr>, None)
     | Inr newArch \<Rightarrow>
        (let s2 = addMessage clk s (message58 newArch);
             s3 = addMessage clk s2 (message64 newArch)
         in (call s3 (GenerateBackendCode newArch), Some (GenerateBackendCode newArch))))\<close>

definition handleSendMessage_backendCode ::
  "clock \<Rightarrow> App \<Rightarrow> AppArchitecture \<Rightarrow> thrown + CodeMap \<Rightarrow> App" where
  \<open>handleSendMessage_backendCode clk s newArch settled =
    (case settled of
       Inl error \<Rightarrow> (addMessage clk s (message91 error))\<lparr>App.isLoading := False\<rparr>
     | Inr backendCode \<Rightarrow>
        (let s5 = addMessage clk s (message72 backendCode);
             s6 = addMessage clk s5 (message80 newArch)
         in s6\<lparr>App.isLoading := False\<rparr>))\<close>

definition handleRefactorRequest_start ::
  "clock \<Rightarrow> App \<Rightarrow> CodeMap \<Rightarrow> App \<times> request option" where
  \<open>handleRefactorRequest_start clk s codeToRefactor =
    (if \<not> truthy (apiKey s) then (s, None)
     else
       let s1 = addMessage clk s message103;
           s2 = s1\<lparr>App.isLoading := True\<rparr>
       in (call s2 (AnalyzeAndRefactorCode codeToRefactor),
           Some (AnalyzeAndRefactorCode codeToRefactor)))\<close>

definition handleRefactorRequest_settled ::
  "clock \<Rightarrow> App \<Rightarrow> thrown + RefactorResult \<Rightarrow> App" where
  \<open>handleRefactorRequest_settled clk s settled =
    (case settled of
       Inr result \<Rightarrow> (addMessage clk s (message114 result))\<lparr>App.isLoading := False\<rparr>
     | Inl error \<Rightarrow> (addMessage clk s (message125 error))\<lparr>App.isLoading := False\<rparr>)\<close>

definition handleGeneratePreviewRequest_start :: "App \<Rightarrow> Microservice \<Rightarrow> App \<times> request option" where
  \<open>handleGeneratePreviewRequest_start s service =
    (let s1 = s\<lparr>previewData :=
                 \<lparr>PreviewData.name = Microservice.name service, htmlContent = None,
                  PreviewData.isLoading = True\<rparr>\<rparr>;
         s2 = s1\<lparr>isPreviewModalOpen := True\<rparr>
     in (call s2 (GenerateFrontendPreview service), Some (GenerateFrontendPreview service)))\<close>

definition handleGeneratePreviewRequest_settled ::
  "App \<Rightarrow> Microservice \<Rightarrow> thrown + string \<Rightarrow> App" where
  \<open>handleGeneratePreviewRequest_settled s service settled =
    (case settled of
       Inr previewHtml \<Rightarrow>
         s\<lparr>previewData :=
             \<lparr>PreviewData.name = Microservice.name service, htmlContent = Some previewHtml,
              PreviewData.isLoading = False\<rparr>\<rparr>
     | Inl error \<Rightarrow>
         s\<lparr>previewData :=
             \<lparr>PreviewData.name = Microservice.name service,
              htmlContent = Some (errorHtml144 error), PreviewData.isLoading = False\<rparr>\<rparr>)\<close>

definition handleGenerateAppPreviewRequest_start ::
  "App \<Rightarrow> AppArchitecture \<Rightarrow> App \<times> request option" where
  \<open>handleGenerateAppPreviewRequest_start s arch =
    (let s1 = s\<lparr>previewData :=
                 \<lparr>PreviewData.name = AppArchitecture.name arch @ '' (App Preview)'',
                  htmlContent = None, PreviewData.isLoading = True\<rparr>\<rparr>;
         s2 = s1\<lparr>isPreviewModalOpen := True\<rparr>
     in (call s2 (GenerateAppPreview arch), Some (GenerateAppPreview arch)))\<close>

definition handleGenerateAppPreviewRequest_settled ::
  "App \<Rightarrow> AppArchitecture \<Rightarrow> thrown + string \<Rightarrow> App" where
  \<open>handleGenerateAppPreviewRequest_settled s arch settled =
    (case settled of
       Inr previewHtml \<Rightarrow>
         s\<lparr>previewData :=
             \<lparr>PreviewData.name = AppArchitecture.name arch @ '' (App Preview)'',
              htmlContent = Some previewHtml, PreviewData.isLoading = False\<rparr>\<rparr>
     | Inl error \<Rightarrow>
         s\<lparr>previewData :=
             \<lparr>PreviewData.name = AppArchitecture.name arch @ '' (App Preview)'',
              htmlContent = Some (errorHtml158 error), PreviewData.isLoading = False\<rparr>\<rparr>)\<close>

text \<open>\<^verbatim>\<open>onClose\<close> of the preview modal, line 181.\<close>

definition onClose :: "App \<Rightarrow> App" where
  \<open>onClose s = s\<lparr>isPreviewModalOpen := False\<rparr>\<close>

section \<open>The component as a transition system\<close>

text \<open>
  The component together with the requests in flight. An event is a call of a handler by
  the user interface (or the mount effect), or the settling of a request in flight with
  the given outcome. Handlers may be called in any state: the rendering gate of line 163,
  which shows only the key dialog while no key is set, is not imposed, so the system has
  at least the behaviours of the component.
\<close>

record World =
  app :: App
  pending :: "request list"

datatype event =
    Mount
  | SubmitApiKey string
  | SendMessage string
  | RequestRefactor CodeMap
  | RequestPreview Microservice
  | RequestAppPreview AppArchitecture
  | ClosePreview
  | ArchitectureSettled string "thrown + AppArchitecture"
  | BackendCodeSettled AppArchitecture "thrown + CodeMap"
  | RefactorSettled CodeMap "thrown + RefactorResult"
  | FrontendPreviewSettled Microservice "thrown + string"
  | AppPreviewSettled AppArchitecture "thrown + string"

definition initialWorld :: "string \<Rightarrow> (string \<rightharpoonup> string) \<Rightarrow> World" where
  \<open>initialWorld t0 store = \<lparr>app = initialApp t0 store, pending = []\<rparr>\<close>

definition suspend :: "World \<Rightarrow> App \<times> request option \<Rightarrow> World" where
  \<open>suspend w outcome =
    \<lparr>app = fst outcome,
     pending = pending w @ (case snd outcome of None \<Rightarrow> [] | Some r \<Rightarrow> [r])\<rparr>\<close>

definition settle :: "World \<Rightarrow> request \<Rightarrow> (World \<Rightarrow> World) \<Rightarrow> World option" where
  \<open>settle w r k =
    (if r \<in> set (pending w) then Some (k (w\<lparr>pending := remove1 r (pending w)\<rparr>)) else None)\<close>

fun step :: "GeminiService \<Rightarrow> clock \<Rightarrow> World \<Rightarrow> event \<Rightarrow> World option" where
  \<open>step c clk w Mount = Some (w\<lparr>app := mount c (app w)\<rparr>)\<close>
| \<open>step c clk w (SubmitApiKey key) = Some (w\<lparr>app := handleApiKeySubmit c (app w) key\<rparr>)\<close>
| \<open>step c clk w (SendMessage message) =
    Some (suspend w (handleSendMessage_start clk (app w) message))\<close>
| \<open>step c clk w (RequestRefactor codeToRefactor) =
    Some (suspend w (handleRefactorRequest_start clk (app w) codeToRefactor))\<close>
| \<open>step c clk w (RequestPreview service) =
    Some (suspend w (handleGeneratePreviewRequest_start (app w) service))\<close>
| \<open>step c clk w (RequestAppPreview arch) =
    Some (suspend w (handleGenerateAppPreviewRequest_start (app w) arch))\<close>
| \<open>step c clk w ClosePreview = Some (w\<lparr>app := onClose (app w)\<rparr>)\<close>
| \<open>step c clk w (ArchitectureSettled message settled) =
    settle w (GenerateInitialArchitecture message)
      (\<lambda>w'. suspend w' (handleSendMessage_architecture clk (app w') settled))\<close>
| \<open>step c clk w (BackendCodeSettled newArch settled) =
    settle w (GenerateBackendCode newArch)
      (\<lambda>w'. w'\<lparr>app := handleSendMessage_backendCode clk (app w') newArch settled\<rparr>)\<close>
| \<open>step c clk w (RefactorSettled codeToRefactor settled) =
    settle w (AnalyzeAndRefactorCode codeToRefactor)
      (\<lambda>w'. w'\<lparr>app := handleRefactorRequest_settled clk (app w') settled\<rparr>)\<close>
| \<open>step c clk w (FrontendPreviewSettled service settled) =
    settle w (GenerateFrontendPreview service)
      (\<lambda>w'. w'\<lparr>app := handleGeneratePreviewRequest_settled (app w') service settled\<rparr>)\<close>
| \<open>step c clk w (AppPreviewSettled arch settled) =
    settle w (GenerateAppPreview arch)
      (\<lambda>w'. w'\<lparr>app := handleGenerateAppPreviewRequest_settled (app w') arch settled\<rparr>)\<close>

text \<open>Running a list of events; \<open>None\<close> when an event settles a request that is not in flight.\<close>

fun run :: "GeminiService \<Rightarrow> clock \<Rightarrow> World \<Rightarrow> event list \<Rightarrow> World option" where
  \<open>run c clk w [] = Some w\<close>
| \<open>run c clk w (e # es) = (case step c clk w e of None \<Rightarrow> None | Some w' \<Rightarrow> run c clk w' es)\<close>

text \<open>The states the component can be in, from its first render.\<close>

inductive reachable :: "GeminiService \<Rightarrow> clock \<Rightarrow> string \<Rightarrow> (string \<rightharpoonup> string) \<Rightarrow> World \<Rightarrow> bool"
  for c :: GeminiService and clk :: clock and t0 :: string and store :: "string \<rightharpoonup> string" where
  first_render: \<open>reachable c clk t0 store (initialWorld t0 store)\<close>
| after_event: \<open>reachable c clk t0 store w \<Longrightarrow> step c clk w e = Some w' \<Longrightarrow> reachable c clk t0 store w'\<close>

section \<open>Example inputs\<close>

definition exampleArch :: AppArchitecture where
  \<open>exampleArch =
    \<lparr>AppArchitecture.name = ''Planto'', AppArchitecture.description = ''A plant shop'',
     microservices = [], dataStores = []\<rparr>\<close>

definition exampleCode :: CodeMap where
  \<open>exampleCode = Mapping.update ''server.js'' ''const express = require('express');'' Mapping.empty\<close>

text \<open>A service on which every operation succeeds.\<close>

definition goodService :: GeminiService where
  \<open>goodService =
    \<lparr>initializeAi = (\<lambda>key. None),
     generateInitialArchitecture = (\<lambda>description. Inr exampleArch),
     generateBackendCode = (\<lambda>arch. Inr exampleCode),
     analyzeAndRefactorCode = (\<lambda>code. Inr \<lparr>analysis = ''Added validation.'', refactoredCode = code\<rparr>),
     generateFrontendPreview = (\<lambda>service. Inr ''<main>service</main>''),
     generateAppPreview = (\<lambda>arch. Inr ''<main>app</main>'')\<rparr>\<close>

definition exampleClock :: clock where
  \<open>exampleClock n = ''09:41 AM''\<close>

text \<open>A service whose backend-code generation is rejected, with an \<^verbatim>\<open>Error\<close>.\<close>

definition codeFailingService :: GeminiService where
  \<open>codeFailingService =
    goodService\<lparr>generateBackendCode := (\<lambda>arch. Inl (Error ''quota exceeded''))\<rparr>\<close>

text \<open>A service that accepts no key.\<close>

definition rejectingService :: GeminiService where
  \<open>rejectingService = goodService\<lparr>initializeAi := (\<lambda>key. Some (Error ''API key not valid''))\<rparr>\<close>

text \<open>The component after a key has been accepted.\<close>

definition keyedApp :: App where
  \<open>keyedApp = handleApiKeySubmit goodService (initialApp ''09:40 AM'' Map.empty) ''k-123''\<close>

definition usersService :: Microservice where
  \<open>usersService =
    \<lparr>Microservice.id = ''svc_users'', Microservice.name = ''User Service'',
     Microservice.description = ''Accounts'', apiEndpoints = []\<rparr>\<close>

definition ordersService :: Microservice where
  \<open>ordersService =
    \<lparr>Microservice.id = ''svc_orders'', Microservice.name = ''Order Service'',
     Microservice.description = ''Orders'', apiEndpoints = []\<rparr>\<close>

text \<open>The component at its first render, with an empty session store: no key is set.\<close>

definition noKeyApp :: App where
  \<open>noKeyApp = initialApp ''09:40 AM'' Map.empty\<close>

text \<open>
  Two service previews requested one after the other; the second settles first.
\<close>

definition previewEvents :: "event list" where
  \<open>previewEvents =
    [RequestPreview usersService, RequestPreview ordersService,
     FrontendPreviewSettled ordersService (Inr ''<p>orders</p>'')]\<close>

text \<open>The state these events lead to: the first request is still in flight.\<close>

definition supersededWorld :: World where
  \<open>supersededWorld =
    \<lparr>app = noKeyApp
       \<lparr>isPreviewModalOpen := True,
        previewData :=
          \<lparr>PreviewData.name = ''Order Service'', htmlContent = Some ''<p>orders</p>'',
           PreviewData.isLoading = False\<rparr>,
        calls := [GenerateFrontendPreview usersService, GenerateFrontendPreview ordersService]\<rparr>,
     pending = [GenerateFrontendPreview usersService]\<rparr>\<close>

text \<open>The component with a key and nothing in flight.\<close>

definition keyedWorld :: World where
  \<open>keyedWorld = \<lparr>app = keyedApp, pending = []\<rparr>\<close>

section \<open>Basic facts\<close>

lemmas message_defs = message49_def message52_def message58_def message64_def message72_def
  message80_def message91_def message103_def message114_def message125_def

lemma chatHistory_call [simp]: \<open>chatHistory (call s r) = chatHistory s\<close>
  by (simp add: call_def)

lemma chatHistory_addMessage [simp]:
  \<open>chatHistory (addMessage clk s m) = chatHistory s @ [stamp m (clk (length (chatHistory s)))]\<close>
  by (simp add: addMessage_def)

lemma apiKey_keyedApp: \<open>apiKey keyedApp = Some ''k-123''\<close>
  by (simp add: keyedApp_def handleApiKeySubmit_def goodService_def call_def initialApp_def)

lemma chatHistory_keyedApp: \<open>chatHistory keyedApp = INITIAL_CHAT_MESSAGES ''09:40 AM''\<close>
  by (simp add: keyedApp_def handleApiKeySubmit_def goodService_def call_def initialApp_def)

lemma truthy_keyedApp: \<open>truthy (apiKey keyedApp)\<close>
  by (simp add: apiKey_keyedApp truthy_def)

lemma not_truthy_initialApp: \<open>\<not> truthy (apiKey (initialApp t0 store))\<close>
  by (simp add: initialApp_def truthy_def)

subsection \<open>The handlers are their pieces run in sequence\<close>

lemma handleSendMessage_pieces:
  \<open>handleSendMessage c clk s message =
    (case handleSendMessage_start clk s message of
       (s1, None) \<Rightarrow> s1
     | (s1, Some r) \<Rightarrow>
        (case generateInitialArchitecture c message of
           Inl error \<Rightarrow> fst (handleSendMessage_architecture clk s1 (Inl error))
         | Inr newArch \<Rightarrow>
             handleSendMessage_backendCode clk
               (fst (handleSendMessage_architecture clk s1 (Inr newArch))) newArch
               (generateBackendCode c newArch)))\<close>
  by (simp add: handleSendMessage_def handleSendMessage_try_def handleSendMessage_start_def
      handleSendMessage_architecture_def handleSendMessage_backendCode_def Let_def
      split: sum.splits)

lemma handleRefactorRequest_pieces:
  \<open>handleRefactorRequest c clk s codeToRefactor =
    (case handleRefactorRequest_start clk s codeToRefactor of
       (s1, None) \<Rightarrow> s1
     | (s1, Some r) \<Rightarrow>
         handleRefactorRequest_settled clk s1 (analyzeAndRefactorCode c codeToRefactor))\<close>
  by (simp add: handleRefactorRequest_def handleRefactorRequest_start_def
      handleRefactorRequest_settled_def Let_def split: sum.splits)

lemma handleGeneratePreviewRequest_pieces:
  \<open>handleGeneratePreviewRequest c s service =
     handleGeneratePreviewRequest_settled (fst (handleGeneratePreviewRequest_start s service))
       service (generateFrontendPreview c service)\<close>
  by (simp add: handleGeneratePreviewRequest_def handleGeneratePreviewRequest_start_def
      handleGeneratePreviewRequest_settled_def Let_def split: sum.splits)

lemma handleGenerateAppPreviewRequest_pieces:
  \<open>handleGenerateAppPreviewRequest c s arch =
     handleGenerateAppPreviewRequest_settled (fst (handleGenerateAppPreviewRequest_start s arch))
       arch (generateAppPreview c arch)\<close>
  by (simp add: handleGenerateAppPreviewRequest_def handleGenerateAppPreviewRequest_start_def
      handleGenerateAppPreviewRequest_settled_def Let_def split: sum.splits)

subsection \<open>Every piece extends the history\<close>

lemma prefix_handleApiKeySubmit: \<open>chatHistory (handleApiKeySubmit c s key) = chatHistory s\<close>
  by (simp add: handleApiKeySubmit_def Let_def split: option.splits)

lemma prefix_mount: \<open>chatHistory (mount c s) = chatHistory s\<close>
  by (simp add: mount_def prefix_handleApiKeySubmit split: option.splits)

lemma prefix_handleSendMessage_start:
  \<open>prefix (chatHistory s) (chatHistory (fst (handleSendMessage_start clk s message)))\<close>
  by (simp add: handleSendMessage_start_def Let_def)

lemma prefix_handleSendMessage_architecture:
  \<open>prefix (chatHistory s) (chatHistory (fst (handleSendMessage_architecture clk s settled)))\<close>
  by (simp add: handleSendMessage_architecture_def Let_def split: sum.splits)

lemma prefix_handleSendMessage_backendCode:
  \<open>prefix (chatHistory s) (chatHistory (handleSendMessage_backendCode clk s newArch settled))\<close>
  by (simp add: handleSendMessage_backendCode_def Let_def split: sum.splits)

lemma prefix_handleRefactorRequest_start:
  \<open>prefix (chatHistory s) (chatHistory (fst (handleRefactorRequest_start clk s codeToRefactor)))\<close>
  by (simp add: handleRefactorRequest_start_def Let_def)

lemma prefix_handleRefactorRequest_settled:
  \<open>prefix (chatHistory s) (chatHistory (handleRefactorRequest_settled clk s settled))\<close>
  by (simp add: handleRefactorRequest_settled_def split: sum.splits)

lemma chatHistory_preview_pieces:
  \<open>chatHistory (fst (handleGeneratePreviewRequest_start s service)) = chatHistory s\<close>
  \<open>chatHistory (handleGeneratePreviewRequest_settled s service settled) = chatHistory s\<close>
  \<open>chatHistory (fst (handleGenerateAppPreviewRequest_start s arch)) = chatHistory s\<close>
  \<open>chatHistory (handleGenerateAppPreviewRequest_settled s arch settled') = chatHistory s\<close>
  \<open>chatHistory (onClose s) = chatHistory s\<close>
  by (simp_all add: handleGeneratePreviewRequest_start_def handleGeneratePreviewRequest_settled_def
      handleGenerateAppPreviewRequest_start_def handleGenerateAppPreviewRequest_settled_def
      onClose_def Let_def split: sum.splits)

lemma prefix_step:
  assumes \<open>step c clk w e = Some w'\<close>
  shows \<open>prefix (chatHistory (app w)) (chatHistory (app w'))\<close>
proof (cases e)
  case Mount
  with assms show ?thesis by (auto simp: prefix_mount)
next
  case (SubmitApiKey key)
  with assms show ?thesis by (auto simp: prefix_handleApiKeySubmit)
next
  case (SendMessage message)
  with assms show ?thesis by (auto simp: suspend_def prefix_handleSendMessage_start)
next
  case (RequestRefactor codeToRefactor)
  with assms show ?thesis by (auto simp: suspend_def prefix_handleRefactorRequest_start)
next
  case (RequestPreview service)
  with assms show ?thesis by (auto simp: suspend_def chatHistory_preview_pieces)
next
  case (RequestAppPreview arch)
  with assms show ?thesis by (auto simp: suspend_def chatHistory_preview_pieces)
next
  case ClosePreview
  with assms show ?thesis by (auto simp: chatHistory_preview_pieces)
next
  case (ArchitectureSettled message settled)
  with assms show ?thesis
    by (auto simp: settle_def suspend_def prefix_handleSendMessage_architecture split: if_splits)
next
  case (BackendCodeSettled newArch settled)
  with assms show ?thesis
    by (auto simp: settle_def prefix_handleSendMessage_backendCode split: if_splits)
next
  case (RefactorSettled codeToRefactor settled)
  with assms show ?thesis
    by (auto simp: settle_def prefix_handleRefactorRequest_settled split: if_splits)
next
  case (FrontendPreviewSettled service settled)
  with assms show ?thesis
    by (auto simp: settle_def chatHistory_preview_pieces split: if_splits)
next
  case (AppPreviewSettled arch settled)
  with assms show ?thesis
    by (auto simp: settle_def chatHistory_preview_pieces split: if_splits)
qed

lemma prefix_run:
  \<open>run c clk w es = Some w' \<Longrightarrow> prefix (chatHistory (app w)) (chatHistory (app w'))\<close>
proof (induction es arbitrary: w)
  case Nil
  then show ?case by simp
next
  case (Cons e es)
  then obtain w1 where s: \<open>step c clk w e = Some w1\<close> and r: \<open>run c clk w1 es = Some w'\<close>
    by (auto split: option.splits)
  from prefix_step [OF s] Cons.IH [OF r] show ?case
    by (rule prefix_order.trans)
qed

lemma prefix_reachable:
  \<open>reachable c clk t0 store w \<Longrightarrow> prefix (INITIAL_CHAT_MESSAGES t0) (chatHistory (app w))\<close>
proof (induction rule: reachable.induct)
  case first_render
  then show ?case by (simp add: initialWorld_def initialApp_def)
next
  case (after_event w e w')
  from after_event.IH prefix_step [OF after_event.hyps(2)] show ?case
    by (rule prefix_order.trans)
qed

lemma foldl_addMessage:
  \<open>chatHistory (foldl (addMessage clk) s ms) =
     chatHistory s @ map (\<lambda>i. stamp (ms ! i) (clk (length (chatHistory s) + i))) [0..<length ms]\<close>
proof (induction ms rule: rev_induct)
  case Nil
  then show ?case by simp
next
  case (snoc m ms)
  then show ?case by (simp add: nth_append)
qed

lemma run_reachable:
  \<open>reachable c clk t0 store w \<Longrightarrow> run c clk w es = Some w' \<Longrightarrow> reachable c clk t0 store w'\<close>
proof (induction es arbitrary: w)
  case Nil
  then show ?case by simp
next
  case (Cons e es)
  from Cons.prems(2) obtain w1 where s: \<open>step c clk w e = Some w1\<close> and r: \<open>run c clk w1 es = Some w'\<close>
    by (auto split: option.splits)
  from Cons.prems(1) s have \<open>reachable c clk t0 store w1\<close> by (rule after_event)
  from Cons.IH [OF this r] show ?case .
qed

subsection \<open>The example states\<close>

lemma run_previewEvents:
  \<open>run goodService exampleClock (initialWorld ''09:40 AM'' Map.empty) previewEvents = Some supersededWorld\<close>
  by (simp add: previewEvents_def initialWorld_def initialApp_def suspend_def settle_def call_def
     handleGeneratePreviewRequest_start_def handleGeneratePreviewRequest_settled_def Let_def
     usersService_def ordersService_def supersededWorld_def noKeyApp_def)

lemma not_truthy_noKeyApp: \<open>\<not> truthy (apiKey noKeyApp)\<close>
  by (simp add: noKeyApp_def not_truthy_initialApp)

lemma reachable_supersededWorld:
  \<open>reachable goodService exampleClock ''09:40 AM'' Map.empty supersededWorld\<close>
  by (rule run_reachable [OF first_render run_previewEvents])

section \<open>The build pipeline\<close>

text \<open>
  C1. With an active key, when the architecture call and the backend-code call both
  succeed, \<^verbatim>\<open>handleSendMessage\<close> appends exactly five entries to the history, in this order:
  the user's text verbatim, an ai/TEXT summary that quotes the architecture's name, an
  ai/ARCHITECTURE entry carrying the architecture, an ai/CODE entry carrying the code map,
  and an ai/APP_PREVIEW_PROMPT entry carrying the same architecture.
\<close>

theorem handleSendMessage_success_appends_five:
  assumes \<open>truthy (apiKey s)\<close>
    and \<open>generateInitialArchitecture c message = Inr newArch\<close>
    and \<open>generateBackendCode c newArch = Inr backendCode\<close>
  shows \<open>chatHistory (handleSendMessage c clk s message) =
    chatHistory s @
     [\<lparr>author = user, type = TEXT, content = message,
       suggestionContext = None, architecture = None, code = None, codeLanguage = None,
       timestamp = clk (length (chatHistory s))\<rparr>,
      \<lparr>author = ai, type = TEXT,
       content = ''Excellent. I've analyzed your vision for "'' @ AppArchitecture.name newArch
         @ ''" and generated the initial architecture. I'll also start scaffolding the backend server code for you.'',
       suggestionContext = None, architecture = None, code = None, codeLanguage = None,
       timestamp = clk (length (chatHistory s) + 1)\<rparr>,
      \<lparr>author = ai, type = ARCHITECTURE,
       content = ''Here is the interactive architecture diagram:'',
       suggestionContext = None, architecture = Some newArch, code = None, codeLanguage = None,
       timestamp = clk (length (chatHistory s) + 2)\<rparr>,
      \<lparr>author = ai, type = CODE,
       content = ''I've generated the complete Node.js backend for your application. You can inspect the files below.'',
       suggestionContext = None, architecture = None, code = Some backendCode,
       codeLanguage = Some ''javascript'', timestamp = clk (length (chatHistory s) + 3)\<rparr>,
      \<lparr>author = ai, type = APP_PREVIEW_PROMPT,
       content = ''Now that the core components are ready, I can generate a holistic UI preview for the entire application.'',
       suggestionContext = None, architecture = Some newArch, code = None, codeLanguage = None,
       timestamp = clk (length (chatHistory s) + 4)\<rparr>]\<close>
  using assms
  by (simp add: handleSendMessage_def handleSendMessage_try_def Let_def stamp_def
      message52_def message58_def message64_def message72_def message80_def eval_nat_numeral)

theorem handleSendMessage_success_appends_five_witness:
  \<open>truthy (apiKey keyedApp)
   \<and> generateInitialArchitecture goodService ''a plant shop'' = Inr exampleArch
   \<and> generateBackendCode goodService exampleArch = Inr exampleCode
   \<and> map MessageBody.type (chatHistory (handleSendMessage goodService exampleClock keyedApp ''a plant shop''))
       = [TEXT, TEXT, TEXT, ARCHITECTURE, CODE, APP_PREVIEW_PROMPT]
   \<and> map author (chatHistory (handleSendMessage goodService exampleClock keyedApp ''a plant shop''))
       = [ai, user, ai, ai, ai, ai]\<close>
proof -
  have k: \<open>truthy (apiKey keyedApp)\<close>
    by (simp add: apiKey_keyedApp truthy_def)
  have a: \<open>generateInitialArchitecture goodService ''a plant shop'' = Inr exampleArch\<close>
    by (simp add: goodService_def)
  have b: \<open>generateBackendCode goodService exampleArch = Inr exampleCode\<close>
    by (simp add: goodService_def)
  show ?thesis
    using k a b handleSendMessage_success_appends_five [OF k a b, where clk = exampleClock]
    by (simp add: chatHistory_keyedApp INITIAL_CHAT_MESSAGES_def)
qed

text \<open>
  C2. With an active key, when the architecture call succeeds and the backend-code call
  fails, \<^verbatim>\<open>handleSendMessage\<close> appends exactly four entries: the user's text, the ai/TEXT
  summary, the ai/ARCHITECTURE entry and an ai/TEXT diagnostic. No CODE entry and no
  APP_PREVIEW_PROMPT entry is appended, and the loading flag is false afterwards.
\<close>

theorem handleSendMessage_code_failure_appends_four:
  assumes \<open>truthy (apiKey s)\<close>
    and \<open>generateInitialArchitecture c message = Inr newArch\<close>
    and \<open>generateBackendCode c newArch = Inl error\<close>
  shows \<open>chatHistory (handleSendMessage c clk s message) =
    chatHistory s @
     [\<lparr>author = user, type = TEXT, content = message,
       suggestionContext = None, architecture = None, code = None, codeLanguage = None,
       timestamp = clk (length (chatHistory s))\<rparr>,
      \<lparr>author = ai, type = TEXT,
       content = ''Excellent. I've analyzed your vision for "'' @ AppArchitecture.name newArch
         @ ''" and generated the initial architecture. I'll also start scaffolding the backend server code for you.'',
       suggestionContext = None, architecture = None, code = None, codeLanguage = None,
       timestamp = clk (length (chatHistory s) + 1)\<rparr>,
      \<lparr>author = ai, type = ARCHITECTURE,
       content = ''Here is the interactive architecture diagram:'',
       suggestionContext = None, architecture = Some newArch, code = None, codeLanguage = None,
       timestamp = clk (length (chatHistory s) + 2)\<rparr>,
      \<lparr>author = ai, type = TEXT,
       content = ''I hit a snag. '' @ errorMessage error @ ''. Could you try describing your app again?'',
       suggestionContext = None, architecture = None, code = None, codeLanguage = None,
       timestamp = clk (length (chatHistory s) + 3)\<rparr>]
    \<and> \<not> App.isLoading (handleSendMessage c clk s message)\<close>
  using assms
  by (simp add: handleSendMessage_def handleSendMessage_try_def Let_def stamp_def
      message_defs eval_nat_numeral call_def addMessage_def)

theorem handleSendMessage_code_failure_appends_four_witness:
  \<open>truthy (apiKey keyedApp)
   \<and> generateInitialArchitecture codeFailingService ''a plant shop'' = Inr exampleArch
   \<and> generateBackendCode codeFailingService exampleArch = Inl (Error ''quota exceeded'')
   \<and> map MessageBody.type
        (chatHistory (handleSendMessage codeFailingService exampleClock keyedApp ''a plant shop''))
       = [TEXT, TEXT, TEXT, ARCHITECTURE, TEXT]
   \<and> content (last
        (chatHistory (handleSendMessage codeFailingService exampleClock keyedApp ''a plant shop'')))
       = ''I hit a snag. quota exceeded. Could you try describing your app again?''
   \<and> \<not> App.isLoading (handleSendMessage codeFailingService exampleClock keyedApp ''a plant shop'')\<close>
proof -
  have a: \<open>generateInitialArchitecture codeFailingService ''a plant shop'' = Inr exampleArch\<close>
    by (simp add: codeFailingService_def goodService_def)
  have b: \<open>generateBackendCode codeFailingService exampleArch = Inl (Error ''quota exceeded'')\<close>
    by (simp add: codeFailingService_def)
  show ?thesis
    using truthy_keyedApp a b
      handleSendMessage_code_failure_appends_four [OF truthy_keyedApp a b, where clk = exampleClock]
    by (simp add: chatHistory_keyedApp INITIAL_CHAT_MESSAGES_def errorMessage_def)
qed

text \<open>
  C9. Without an active key, \<^verbatim>\<open>handleSendMessage\<close> does not record the input: the only
  change to the component is one appended ai/TEXT entry asking for a key, so no user entry
  is added, the loading flag is untouched and the generation service is not called.
\<close>

theorem handleSendMessage_without_key_input_not_recorded:
  assumes \<open>\<not> truthy (apiKey s)\<close>
  shows \<open>handleSendMessage c clk s message =
     s\<lparr>chatHistory := chatHistory s @
        [\<lparr>author = ai, type = TEXT, content = ''Please set your API key before we begin.'',
          suggestionContext = None, architecture = None, code = None, codeLanguage = None,
          timestamp = clk (length (chatHistory s))\<rparr>]\<rparr>\<close>
  using assms
  by (simp add: handleSendMessage_def stamp_def message_defs addMessage_def)

theorem handleSendMessage_without_key_input_not_recorded_witness:
  \<open>\<not> truthy (apiKey (initialApp ''09:40 AM'' Map.empty))
   \<and> map author
        (chatHistory (handleSendMessage goodService exampleClock (initialApp ''09:40 AM'' Map.empty) ''a plant shop''))
       = [ai, ai]
   \<and> calls (handleSendMessage goodService exampleClock (initialApp ''09:40 AM'' Map.empty) ''a plant shop'')
       = []\<close>
proof -
  have k: \<open>\<not> truthy (apiKey (initialApp ''09:40 AM'' Map.empty))\<close>
    by (rule not_truthy_initialApp)
  show ?thesis
    using k handleSendMessage_without_key_input_not_recorded
      [OF k, where c = goodService and clk = exampleClock and message = \<open>''a plant shop''\<close>]
    by (simp add: initialApp_def INITIAL_CHAT_MESSAGES_def)
qed

section \<open>The refactor pipeline\<close>

text \<open>
  C8. With an active key and any code map (the empty one included),
  \<^verbatim>\<open>handleRefactorRequest\<close> makes exactly one call to the generation service, and after
  its opening notice appends exactly one outcome entry: an ai/REFACTOR_ANALYSIS entry when
  the call succeeds, an ai/TEXT diagnostic when it fails, never both.
\<close>

theorem handleRefactorRequest_one_call_one_outcome:
  assumes \<open>truthy (apiKey s)\<close>
  shows \<open>calls (handleRefactorRequest c clk s codeToRefactor) =
           calls s @ [AnalyzeAndRefactorCode codeToRefactor]
       \<and> chatHistory (handleRefactorRequest c clk s codeToRefactor) =
           chatHistory s @
            [\<lparr>author = ai, type = TEXT,
              content = ''Understood. I'm now analyzing the generated code for potential improvements, like adding error handling and validation...'',
              suggestionContext = None, architecture = None, code = None, codeLanguage = None,
              timestamp = clk (length (chatHistory s))\<rparr>,
             (case analyzeAndRefactorCode c codeToRefactor of
                Inr result \<Rightarrow>
                  \<lparr>author = ai, type = REFACTOR_ANALYSIS, content = analysis result,
                   suggestionContext = None, architecture = None,
                   code = Some (refactoredCode result), codeLanguage = Some ''javascript'',
                   timestamp = clk (length (chatHistory s) + 1)\<rparr>
              | Inl error \<Rightarrow>
                  \<lparr>author = ai, type = TEXT,
                   content = ''I encountered an issue while trying to refactor the code. ''
                     @ errorMessage error @ ''.'',
                   suggestionContext = None, architecture = None, code = None,
                   codeLanguage = None, timestamp = clk (length (chatHistory s) + 1)\<rparr>)]\<close>
  using assms
  by (simp add: handleRefactorRequest_def Let_def stamp_def message_defs call_def addMessage_def
      split: sum.splits)

theorem handleRefactorRequest_one_call_one_outcome_witness:
  \<open>truthy (apiKey keyedApp)
   \<and> calls (handleRefactorRequest goodService exampleClock keyedApp Mapping.empty) =
       calls keyedApp @ [AnalyzeAndRefactorCode Mapping.empty]
   \<and> map MessageBody.type (chatHistory (handleRefactorRequest goodService exampleClock keyedApp Mapping.empty))
       = [TEXT, TEXT, REFACTOR_ANALYSIS]\<close>
  using truthy_keyedApp
    handleRefactorRequest_one_call_one_outcome [OF truthy_keyedApp, where c = goodService
      and clk = exampleClock and codeToRefactor = Mapping.empty]
  by (simp add: chatHistory_keyedApp INITIAL_CHAT_MESSAGES_def goodService_def)

section \<open>The loading flag\<close>

text \<open>
  C6. Every run of \<^verbatim>\<open>handleSendMessage\<close> and of \<^verbatim>\<open>handleRefactorRequest\<close> that enters the
  loading state (that is, every run with an active key) ends with the loading flag false,
  whatever the generation service answers. The same holds piece by piece, in whatever
  state \<open>s'\<close> a settlement finds the component: each piece that ends a pipeline, after a
  rejection or after the last step, clears the flag.
\<close>

theorem pipelines_release_loading:
  assumes \<open>truthy (apiKey s)\<close>
  shows \<open>\<not> App.isLoading (handleSendMessage c clk s message)
       \<and> \<not> App.isLoading (handleRefactorRequest c clk s codeToRefactor)
       \<and> \<not> App.isLoading (fst (handleSendMessage_architecture clk s' (Inl error)))
       \<and> \<not> App.isLoading (handleSendMessage_backendCode clk s' newArch settled)
       \<and> \<not> App.isLoading (handleRefactorRequest_settled clk s' settled')\<close>
  using assms
  by (simp add: handleSendMessage_def handleRefactorRequest_def handleSendMessage_architecture_def
      handleSendMessage_backendCode_def handleRefactorRequest_settled_def Let_def
      split: prod.splits sum.splits)

theorem pipelines_release_loading_witness:
  \<open>truthy (apiKey keyedApp)
   \<and> \<not> App.isLoading (handleSendMessage codeFailingService exampleClock keyedApp ''a plant shop'')
   \<and> \<not> App.isLoading (handleRefactorRequest codeFailingService exampleClock keyedApp exampleCode)\<close>
  using truthy_keyedApp
    pipelines_release_loading [OF truthy_keyedApp, where c = codeFailingService
      and clk = exampleClock and message = \<open>''a plant shop''\<close> and codeToRefactor = exampleCode]
  by simp

section \<open>The session key\<close>

text \<open>
  C7. When \<^verbatim>\<open>initializeAi\<close> throws, \<^verbatim>\<open>handleApiKeySubmit\<close> leaves the key as it was: the
  \<^verbatim>\<open>apiKey\<close> cell and the \<^verbatim>\<open>sessionStorage\<close> entry keep their values, so the key is active
  afterwards exactly if it was before. The only effects are the call itself and the alert.
\<close>

theorem handleApiKeySubmit_failure_keeps_key:
  assumes \<open>initializeAi c key = Some error\<close>
  shows \<open>apiKey (handleApiKeySubmit c s key) = apiKey s
       \<and> sessionStorage (handleApiKeySubmit c s key) = sessionStorage s
       \<and> truthy (apiKey (handleApiKeySubmit c s key)) = truthy (apiKey s)
       \<and> handleApiKeySubmit c s key =
           s\<lparr>calls := calls s @ [InitializeAi key],
             alerts := alerts s @ [''Failed to initialize with that API Key. Please check the key and try again.'']\<rparr>\<close>
  using assms by (simp add: handleApiKeySubmit_def call_def)

theorem handleApiKeySubmit_failure_keeps_key_witness:
  \<open>initializeAi rejectingService ''bad-key'' = Some (Error ''API key not valid'')
   \<and> apiKey (handleApiKeySubmit rejectingService keyedApp ''bad-key'') = Some ''k-123''
   \<and> sessionStorage (handleApiKeySubmit rejectingService keyedApp ''bad-key'') ''gemini-api-key''
       = Some ''k-123''\<close>
proof -
  have r: \<open>initializeAi rejectingService ''bad-key'' = Some (Error ''API key not valid'')\<close>
    by (simp add: rejectingService_def)
  have st: \<open>sessionStorage keyedApp ''gemini-api-key'' = Some ''k-123''\<close>
    by (simp add: keyedApp_def handleApiKeySubmit_def goodService_def call_def initialApp_def)
  show ?thesis
    using r st handleApiKeySubmit_failure_keeps_key [OF r, where s = keyedApp]
    by (simp add: apiKey_keyedApp)
qed

section \<open>The key check\<close>

text \<open>
  C3, as stated: every handler that calls the generation service first checks for an
  active key and, without one, appends an ai/TEXT entry asking for a key and returns
  without calling the service. This fails at the first render with no stored key:
  \<^verbatim>\<open>handleRefactorRequest\<close> appends nothing, and both preview handlers call the service.
\<close>

theorem key_check_counterexample:
  \<open>\<not> truthy (apiKey noKeyApp)
   \<and> chatHistory (handleRefactorRequest goodService exampleClock noKeyApp exampleCode) = chatHistory noKeyApp
   \<and> calls noKeyApp = []
   \<and> calls (handleGeneratePreviewRequest goodService noKeyApp usersService) = [GenerateFrontendPreview usersService]
   \<and> calls (handleGenerateAppPreviewRequest goodService noKeyApp exampleArch) = [GenerateAppPreview exampleArch]\<close>
  using not_truthy_noKeyApp
  by (simp add: handleRefactorRequest_def handleGeneratePreviewRequest_def
      handleGenerateAppPreviewRequest_def call_def Let_def goodService_def noKeyApp_def initialApp_def)

text \<open>
  C3, amended. Without an active key, \<^verbatim>\<open>handleSendMessage\<close> appends one ai/TEXT entry
  asking for a key and returns without calling the service; \<^verbatim>\<open>handleRefactorRequest\<close>
  returns at once and changes nothing. The two preview handlers do not check the key: in
  every state, with a key or without one, they call the service exactly once and leave
  the history alone.
\<close>

theorem key_check_per_handler:
  \<open>(\<not> truthy (apiKey s) \<longrightarrow>
      handleSendMessage c clk s message =
        s\<lparr>chatHistory := chatHistory s @
          [\<lparr>author = ai, type = TEXT, content = ''Please set your API key before we begin.'',
            suggestionContext = None, architecture = None, code = None, codeLanguage = None,
            timestamp = clk (length (chatHistory s))\<rparr>]\<rparr>
      \<and> calls (handleSendMessage c clk s message) = calls s
      \<and> handleRefactorRequest c clk s codeToRefactor = s)
   \<and> calls (handleGeneratePreviewRequest c s service) = calls s @ [GenerateFrontendPreview service]
   \<and> chatHistory (handleGeneratePreviewRequest c s service) = chatHistory s
   \<and> calls (handleGenerateAppPreviewRequest c s arch) = calls s @ [GenerateAppPreview arch]
   \<and> chatHistory (handleGenerateAppPreviewRequest c s arch) = chatHistory s\<close>
proof -
  have build: \<open>handleSendMessage c clk s message =
        s\<lparr>chatHistory := chatHistory s @
          [\<lparr>author = ai, type = TEXT, content = ''Please set your API key before we begin.'',
            suggestionContext = None, architecture = None, code = None, codeLanguage = None,
            timestamp = clk (length (chatHistory s))\<rparr>]\<rparr>\<close>
    if \<open>\<not> truthy (apiKey s)\<close>
    using that by (simp add: handleSendMessage_def stamp_def message49_def addMessage_def)
  have refactor: \<open>handleRefactorRequest c clk s codeToRefactor = s\<close> if \<open>\<not> truthy (apiKey s)\<close>
    using that by (simp add: handleRefactorRequest_def)
  have preview:
    \<open>calls (handleGeneratePreviewRequest c s service) = calls s @ [GenerateFrontendPreview service]\<close>
    \<open>chatHistory (handleGeneratePreviewRequest c s service) = chatHistory s\<close>
    by (simp_all add: handleGeneratePreviewRequest_def call_def Let_def split: sum.splits)
  have appPreview:
    \<open>calls (handleGenerateAppPreviewRequest c s arch) = calls s @ [GenerateAppPreview arch]\<close>
    \<open>chatHistory (handleGenerateAppPreviewRequest c s arch) = chatHistory s\<close>
    by (simp_all add: handleGenerateAppPreviewRequest_def call_def Let_def split: sum.splits)
  from build refactor preview appPreview show ?thesis by simp
qed

theorem key_check_per_handler_witness:
  \<open>\<not> truthy (apiKey noKeyApp)
   \<and> map content (chatHistory (handleSendMessage goodService exampleClock noKeyApp ''a plant shop''))
       = map content (chatHistory noKeyApp) @ [''Please set your API key before we begin.'']
   \<and> handleRefactorRequest goodService exampleClock noKeyApp exampleCode = noKeyApp
   \<and> calls (handleGeneratePreviewRequest goodService noKeyApp usersService) =
       calls noKeyApp @ [GenerateFrontendPreview usersService]
   \<and> truthy (apiKey keyedApp)
   \<and> calls (handleGeneratePreviewRequest goodService keyedApp usersService) =
       calls keyedApp @ [GenerateFrontendPreview usersService]
   \<and> calls (handleGenerateAppPreviewRequest goodService keyedApp exampleArch) =
       calls keyedApp @ [GenerateAppPreview exampleArch]\<close>
  using not_truthy_noKeyApp truthy_keyedApp
    key_check_per_handler [where s = noKeyApp and c = goodService and clk = exampleClock
      and message = \<open>''a plant shop''\<close> and codeToRefactor = exampleCode
      and service = usersService]
    key_check_per_handler [where s = keyedApp and c = goodService
      and service = usersService and arch = exampleArch]
  by simp

section \<open>Overlapping preview requests\<close>

text \<open>
  C4, as stated: when a second preview is requested while the first is loading, the
  result of the first, arriving late, never overwrites the state set by the second. This
  fails: after the second request has settled, the settlement of the first replaces the
  preview state.
\<close>

theorem preview_late_result_counterexample:
  \<open>run goodService exampleClock (initialWorld ''09:40 AM'' Map.empty)
      [RequestPreview usersService, RequestPreview ordersService,
       FrontendPreviewSettled ordersService (Inr ''<p>orders</p>'')] = Some supersededWorld
   \<and> previewData (app supersededWorld) =
       \<lparr>PreviewData.name = ''Order Service'', htmlContent = Some ''<p>orders</p>'',
        PreviewData.isLoading = False\<rparr>
   \<and> map_option (previewData \<circ> app)
        (step goodService exampleClock supersededWorld
          (FrontendPreviewSettled usersService (Inr ''<p>users</p>''))) =
       Some \<lparr>PreviewData.name = ''User Service'', htmlContent = Some ''<p>users</p>'',
             PreviewData.isLoading = False\<rparr>
   \<and> map_option (previewData \<circ> app)
        (step goodService exampleClock supersededWorld
          (FrontendPreviewSettled usersService (Inr ''<p>users</p>''))) \<noteq>
       Some (previewData (app supersededWorld))\<close>
  using run_previewEvents
  by (simp add: previewEvents_def supersededWorld_def settle_def
      handleGeneratePreviewRequest_settled_def usersService_def)

text \<open>
  C4, amended. In every state, a preview request (of a service or of the whole app) at
  once sets the preview state to the new name, loading, with no content, and leaves the
  earlier requests in flight. Whenever a request in flight settles, however late, its
  outcome replaces the preview state: the name of that request, not loading, and the
  returned page or the error fragment. The settlement that comes last wins.
\<close>

theorem preview_late_result_overwrites:
  \<open>map_option (previewData \<circ> app) (step c clk w (RequestPreview service)) =
      Some \<lparr>PreviewData.name = Microservice.name service, htmlContent = None,
            PreviewData.isLoading = True\<rparr>
   \<and> map_option pending (step c clk w (RequestPreview service)) =
      Some (pending w @ [GenerateFrontendPreview service])
   \<and> map_option (previewData \<circ> app) (step c clk w (RequestAppPreview arch)) =
      Some \<lparr>PreviewData.name = AppArchitecture.name arch @ '' (App Preview)'', htmlContent = None,
            PreviewData.isLoading = True\<rparr>
   \<and> map_option pending (step c clk w (RequestAppPreview arch)) =
      Some (pending w @ [GenerateAppPreview arch])
   \<and> (GenerateFrontendPreview older \<in> set (pending w) \<longrightarrow>
        map_option (previewData \<circ> app) (step c clk w (FrontendPreviewSettled older settled)) =
          Some \<lparr>PreviewData.name = Microservice.name older,
                htmlContent = Some (case settled of Inr previewHtml \<Rightarrow> previewHtml
                                     | Inl error \<Rightarrow> errorHtml144 error),
                PreviewData.isLoading = False\<rparr>)
   \<and> (GenerateAppPreview olderArch \<in> set (pending w) \<longrightarrow>
        map_option (previewData \<circ> app) (step c clk w (AppPreviewSettled olderArch settled')) =
          Some \<lparr>PreviewData.name = AppArchitecture.name olderArch @ '' (App Preview)'',
                htmlContent = Some (case settled' of Inr previewHtml \<Rightarrow> previewHtml
                                     | Inl error \<Rightarrow> errorHtml158 error),
                PreviewData.isLoading = False\<rparr>)\<close>
  by (simp add: suspend_def settle_def call_def Let_def
      handleGeneratePreviewRequest_start_def handleGeneratePreviewRequest_settled_def
      handleGenerateAppPreviewRequest_start_def handleGenerateAppPreviewRequest_settled_def
      split: sum.splits)

theorem preview_late_result_overwrites_witness:
  \<open>GenerateFrontendPreview usersService \<in> set (pending supersededWorld)
   \<and> map_option (previewData \<circ> app)
        (step goodService exampleClock supersededWorld
          (FrontendPreviewSettled usersService (Inl (Error ''timeout'')))) =
       Some \<lparr>PreviewData.name = ''User Service'',
             htmlContent = Some ''<div class="p-8 text-center text-red-400"><h2 class="text-xl font-bold mb-2">Preview Generation Failed</h2><p>timeout</p></div>'',
             PreviewData.isLoading = False\<rparr>\<close>
proof -
  have p: \<open>GenerateFrontendPreview usersService \<in> set (pending supersededWorld)\<close>
    by (simp add: supersededWorld_def)
  from preview_late_result_overwrites [where w = supersededWorld and older = usersService and c = goodService
      and clk = exampleClock and settled = \<open>Inl (Error ''timeout'')\<close>] p
  have \<open>map_option (previewData \<circ> app)
        (step goodService exampleClock supersededWorld
          (FrontendPreviewSettled usersService (Inl (Error ''timeout'')))) =
       Some \<lparr>PreviewData.name = Microservice.name usersService,
             htmlContent = Some (errorHtml144 (Error ''timeout'')), PreviewData.isLoading = False\<rparr>\<close>
    by simp
  with p show ?thesis
    by (simp add: usersService_def errorHtml144_def errorMessage_def)
qed

section \<open>The conversation store\<close>

text \<open>
  C5. Appending a sequence of messages yields the old history followed by the messages
  in the order of their appends, each stamped once. No event of the component and no
  handler removes, reorders or changes an entry: the history before is a prefix of the
  history after.
\<close>

theorem chatHistory_append_only:
  \<open>chatHistory (foldl (addMessage clk) s ms) =
     chatHistory s @ map (\<lambda>i. stamp (ms ! i) (clk (length (chatHistory s) + i))) [0..<length ms]
   \<and> (run c clk w es = Some w' \<longrightarrow> prefix (chatHistory (app w)) (chatHistory (app w')))
   \<and> prefix (chatHistory s) (chatHistory (handleSendMessage c clk s message))
   \<and> prefix (chatHistory s) (chatHistory (handleRefactorRequest c clk s codeToRefactor))
   \<and> chatHistory (handleGeneratePreviewRequest c s service) = chatHistory s
   \<and> chatHistory (handleGenerateAppPreviewRequest c s arch) = chatHistory s
   \<and> chatHistory (handleApiKeySubmit c s key) = chatHistory s
   \<and> chatHistory (mount c s) = chatHistory s\<close>
proof -
  have a: \<open>prefix (chatHistory s) (chatHistory (handleSendMessage c clk s message))\<close>
    by (simp add: handleSendMessage_def handleSendMessage_try_def Let_def split: sum.splits)
  have b: \<open>prefix (chatHistory s) (chatHistory (handleRefactorRequest c clk s codeToRefactor))\<close>
    by (simp add: handleRefactorRequest_def Let_def split: sum.splits)
  have p: \<open>chatHistory (handleGeneratePreviewRequest c s service) = chatHistory s\<close>
    by (simp add: handleGeneratePreviewRequest_pieces chatHistory_preview_pieces)
  have q: \<open>chatHistory (handleGenerateAppPreviewRequest c s arch) = chatHistory s\<close>
    by (simp add: handleGenerateAppPreviewRequest_pieces chatHistory_preview_pieces)
  show ?thesis
    using a b p q foldl_addMessage [of clk s ms] prefix_run [of c clk w es w']
      prefix_handleApiKeySubmit [of c s key] prefix_mount [of c s]
    by simp
qed

theorem chatHistory_append_only_witness:
  \<open>run goodService exampleClock keyedWorld [SendMessage ''a plant shop''] =
      Some (suspend keyedWorld (handleSendMessage_start exampleClock keyedApp ''a plant shop''))
   \<and> prefix (chatHistory keyedApp)
        (chatHistory (app (suspend keyedWorld
          (handleSendMessage_start exampleClock keyedApp ''a plant shop''))))
   \<and> map content (chatHistory (app (suspend keyedWorld
          (handleSendMessage_start exampleClock keyedApp ''a plant shop'')))) =
       map content (chatHistory keyedApp) @ [''a plant shop'']\<close>
proof -
  have r: \<open>run goodService exampleClock keyedWorld [SendMessage ''a plant shop''] =
      Some (suspend keyedWorld (handleSendMessage_start exampleClock keyedApp ''a plant shop''))\<close>
    by (simp add: keyedWorld_def)
  have m: \<open>map content (chatHistory (app (suspend keyedWorld
          (handleSendMessage_start exampleClock keyedApp ''a plant shop'')))) =
       map content (chatHistory keyedApp) @ [''a plant shop'']\<close>
    using truthy_keyedApp
    by (simp add: suspend_def handleSendMessage_start_def Let_def stamp_def message52_def)
  from chatHistory_append_only [where c = goodService and clk = exampleClock
      and w = keyedWorld and es = \<open>[SendMessage ''a plant shop'']\<close>
      and w' = \<open>suspend keyedWorld (handleSendMessage_start exampleClock keyedApp ''a plant shop'')\<close>] r
  have \<open>prefix (chatHistory (app keyedWorld))
        (chatHistory (app (suspend keyedWorld
          (handleSendMessage_start exampleClock keyedApp ''a plant shop''))))\<close>
    by blast
  with r m show ?thesis by (simp add: keyedWorld_def)
qed

text \<open>
  C10. In every state the component can reach, the history is not empty and begins with
  the seed welcome entry of \<^verbatim>\<open>INITIAL_CHAT_MESSAGES\<close>; every event keeps that first entry.
\<close>

theorem chatHistory_starts_with_welcome:
  assumes \<open>reachable c clk t0 store w\<close>
  shows \<open>chatHistory (app w) \<noteq> []
    \<and> hd (chatHistory (app w)) =
        \<lparr>author = ai, type = TEXT,
         content = ''Welcome! I'm your AI development partner. Describe the app you want to build, and I'll generate the architecture, code, and UI previews for you.'',
         suggestionContext = None, architecture = None, code = None, codeLanguage = None,
         timestamp = t0\<rparr>
    \<and> (\<forall>e w'. step c clk w e = Some w' \<longrightarrow>
          chatHistory (app w') \<noteq> [] \<and> hd (chatHistory (app w')) = hd (chatHistory (app w)))\<close>
proof -
  from prefix_reachable [OF assms]
  obtain rest where h: \<open>chatHistory (app w) = INITIAL_CHAT_MESSAGES t0 @ rest\<close>
    by (auto simp: prefix_def)
  have st: \<open>chatHistory (app w') \<noteq> [] \<and> hd (chatHistory (app w')) = hd (chatHistory (app w))\<close>
    if \<open>step c clk w e = Some w'\<close> for e w'
  proof -
    from prefix_step [OF that] obtain more where \<open>chatHistory (app w') = chatHistory (app w) @ more\<close>
      by (auto simp: prefix_def)
    with h show ?thesis by (simp add: INITIAL_CHAT_MESSAGES_def)
  qed
  from h st show ?thesis by (simp add: INITIAL_CHAT_MESSAGES_def)
qed

theorem chatHistory_starts_with_welcome_witness:
  \<open>reachable goodService exampleClock ''09:40 AM'' Map.empty supersededWorld
   \<and> chatHistory (app supersededWorld) \<noteq> []
   \<and> content (hd (chatHistory (app supersededWorld))) =
       ''Welcome! I'm your AI development partner. Describe the app you want to build, and I'll generate the architecture, code, and UI previews for you.''\<close>
  using reachable_supersededWorld chatHistory_starts_with_welcome [OF reachable_supersededWorld]
  by simp

end
